theory Spec2Isabelle
  imports Main
begin

section \<open>Replies and the error handler (utils/errorHandling.js)\<close>

text \<open>
  Every handler of the repository ends a request in one of two ways: it answers with a
  status code and a JSON body holding a message, or (a middleware) it calls \<open>next()\<close>.
  \<open>handleError\<close> answers with \<open>statusCode\<close> and \<open>userMessage\<close> and writes the error it
  was given to the log; the log line is kept in the reply, because two of the failures of
  \<open>protect\<close> send the same status and body and differ only in what is logged.
  A thrown JavaScript error is represented by its message. The stack that a development
  build adds to the body is left out.
\<close>

record reply =
  status :: nat
  message :: string
  logged :: string

definition handleError :: "string \<Rightarrow> nat \<Rightarrow> string \<Rightarrow> reply" where
  "handleError error statusCode userMessage =
     \<lparr>status = statusCode, message = userMessage, logged = error\<rparr>"

text \<open>The optional third argument of the specialised handlers: \<open>None\<close> takes the default.\<close>

definition handleValidationError :: "string \<Rightarrow> string option \<Rightarrow> reply" where
  "handleValidationError error userMessage =
     handleError error 400 (case userMessage of None \<Rightarrow> ''Validation failed'' | Some m \<Rightarrow> m)"

definition handleAuthError :: "string \<Rightarrow> string option \<Rightarrow> reply" where
  "handleAuthError error userMessage =
     handleError error 401 (case userMessage of None \<Rightarrow> ''Unauthorized access'' | Some m \<Rightarrow> m)"

definition handleNotFoundError :: "string \<Rightarrow> string option \<Rightarrow> reply" where
  "handleNotFoundError error userMessage =
     handleError error 404 (case userMessage of None \<Rightarrow> ''Resource not found'' | Some m \<Rightarrow> m)"

definition handleDatabaseError :: "string \<Rightarrow> string option \<Rightarrow> reply" where
  "handleDatabaseError error userMessage =
     handleError error 500 (case userMessage of None \<Rightarrow> ''Database error occurred'' | Some m \<Rightarrow> m)"

text \<open>\<open>res.json({ message })\<close> after \<open>logSuccess(line, ...)\<close>: status 200.\<close>

definition json_ok :: "string \<Rightarrow> string \<Rightarrow> reply" where
  "json_ok line msg = \<lparr>status = 200, message = msg, logged = line\<rparr>"

section \<open>JavaScript strings\<close>

definition startsWith :: "string \<Rightarrow> string \<Rightarrow> bool" where
  "startsWith s p = (take (length p) s = p)"

text \<open>\<open>s.split(c)\<close> for a one-character separator: the pieces between the separators,
  empty pieces included; the result is never empty.\<close>

fun split :: "char \<Rightarrow> string \<Rightarrow> string list" where
  "split c [] = [[]]"
| "split c (x # xs) =
     (if x = c then [] # split c xs
      else (case split c xs of [] \<Rightarrow> [[x]] | w # ws \<Rightarrow> (x # w) # ws))"

text \<open>\<open>xs[1]\<close>: \<open>None\<close> stands for \<open>undefined\<close>.\<close>

fun second :: "'a list \<Rightarrow> 'a option" where
  "second (x # y # ys) = Some y"
| "second xs = None"

text \<open>\<open>s.replace(p, r)\<close> with a string pattern: the first occurrence only.\<close>

fun replace :: "string \<Rightarrow> string \<Rightarrow> string \<Rightarrow> string" where
  "replace p r [] = (if p = [] then r else [])"
| "replace p r (x # xs) =
     (if startsWith (x # xs) p then r @ drop (length p) (x # xs) else x # replace p r xs)"

section \<open>Stores and external calls\<close>

text \<open>
  The decoded payload of a token: the server signs \<open>{ userId }\<close> only
  (\<open>registerUser\<close>, \<open>loginUser\<close>, \<open>requestPasswordReset\<close>).
\<close>

record payload =
  userId :: string

text \<open>
  \<open>jwt.verify(token, secret)\<close> belongs to a library: it is a parameter of the model,
  \<open>Inl\<close> the message of the error it throws, \<open>Inr\<close> the decoded payload.
\<close>

type_synonym verifier = "string \<Rightarrow> string + payload"

text \<open>A document of the \<open>BlacklistedToken\<close> collection, as \<open>addToBlacklist\<close> creates it.\<close>

record blacklisted =
  token :: string
  expiresAt :: int

text \<open>
  The calls a handler makes to its collaborators, in the order it makes them. A handler
  returns this trace beside its result, so that "no lookup is made" is a statement about
  the model. Every database call may throw; \<open>faults\<close> says which call throws what.
\<close>

datatype call =
    BlacklistFindOne string
  | BlacklistCreate string int
  | JwtVerify string
  | UserFindById string
  | UserFindOne string string int
  | UserSave string
  | PostFindById string
  | PostSave string
  | PostPopulate string
  | PostDeleteOne string
  | CommentFindById string
  | CommentDeleteOne string

type_synonym faults = "call \<Rightarrow> string option"

section \<open>The authenticator (middleware/authMiddleware.js)\<close>

text \<open>Lines 7 to 10 of \<open>protect\<close>: the variable \<open>token\<close>, \<open>None\<close> while it is undefined.\<close>

definition headerToken :: "string option \<Rightarrow> string option" where
  "headerToken authorization =
     (case authorization of
        None \<Rightarrow> None
      | Some h \<Rightarrow> if h \<noteq> [] \<and> startsWith h ''Bearer '' then second (split CHR '' '' h) else None)"

datatype outcome = Next payload | Responded reply

definition protect ::
  "verifier \<Rightarrow> faults \<Rightarrow> blacklisted list \<Rightarrow> string option \<Rightarrow> outcome \<times> call list" where
  "protect verify flt blacklist authorization =
     (case headerToken authorization of
        None \<Rightarrow> (Responded (handleAuthError ''No token provided'' None), [])
      | Some tok \<Rightarrow>
          if tok = [] then (Responded (handleAuthError ''No token provided'' None), [])
          else
            (case flt (BlacklistFindOne tok) of
               Some err \<Rightarrow>
                 (Responded (handleAuthError err (Some ''Token verification failed'')),
                  [BlacklistFindOne tok])
             | None \<Rightarrow>
                 (case find (\<lambda>e. token e = tok) blacklist of
                    Some e \<Rightarrow>
                      (Responded (handleAuthError ''Token is invalid'' None),
                       [BlacklistFindOne tok])
                  | None \<Rightarrow>
                      (case verify tok of
                         Inl err \<Rightarrow>
                           (Responded (handleAuthError err (Some ''Token verification failed'')),
                            [BlacklistFindOne tok, JwtVerify tok])
                       | Inr decoded \<Rightarrow>
                           (Next decoded, [BlacklistFindOne tok, JwtVerify tok])))))"

text \<open>
  \<open>addToBlacklist\<close>: the expiry is thirty days after the clock's \<open>now\<close> (milliseconds);
  \<open>create\<close> inserts a document. A failed \<open>create\<close> (the store is down, or the schema
  of \<open>BlacklistedToken\<close>, which is not among the sources, refuses the document, for a
  duplicate key say) is rethrown and leaves the collection as it was. The first component of the result is the error
  thrown, if any.
\<close>

definition addToBlacklist ::
  "faults \<Rightarrow> int \<Rightarrow> string \<Rightarrow> blacklisted list
     \<Rightarrow> (string option \<times> blacklisted list) \<times> call list" where
  "addToBlacklist flt now tok blacklist =
     (let exp = now + 30 * 24 * 60 * 60 * 1000 in
      case flt (BlacklistCreate tok exp) of
        Some err \<Rightarrow> ((Some err, blacklist), [BlacklistCreate tok exp])
      | None \<Rightarrow>
          ((None, blacklist @ [\<lparr>token = tok, expiresAt = exp\<rparr>]), [BlacklistCreate tok exp]))"

section \<open>Sign-out and password reset (controllers/authController.js)\<close>

text \<open>
  \<open>signoutUser\<close> runs behind \<open>protect\<close> (routes/authRoutes.js). It reads the header
  again and takes the token by \<open>replace('Bearer ', '')\<close>, not by \<open>split(' ')[1]\<close>.
\<close>

definition signoutUser ::
  "faults \<Rightarrow> int \<Rightarrow> blacklisted list \<Rightarrow> string option
     \<Rightarrow> (reply \<times> blacklisted list) \<times> call list" where
  "signoutUser flt now blacklist authorization =
     (case map_option (replace ''Bearer '' []) authorization of
        None \<Rightarrow> ((handleValidationError ''No token provided'' None, blacklist), [])
      | Some tok \<Rightarrow>
          if tok = [] then ((handleValidationError ''No token provided'' None, blacklist), [])
          else
            (case addToBlacklist flt now tok blacklist of
               ((Some err, bl), tr) \<Rightarrow>
                 ((handleDatabaseError err (Some ''Error signing out''), bl), tr)
             | ((None, bl), tr) \<Rightarrow>
                 ((json_ok ''User signed out'' ''Successfully signed out'', bl), tr)))"

text \<open>
  The fields of a \<open>User\<close> document that the handlers below read or write; the collection
  maps \<open>_id\<close> to the document. \<open>undefined\<close> is \<open>None\<close>.
\<close>

record user =
  password :: string
  role :: string
  resetPasswordToken :: "string option"
  resetPasswordExpires :: "int option"

type_synonym users = "string \<rightharpoonup> user"

text \<open>
  \<open>resetPassword\<close>. The body's \<open>token\<close> and \<open>newPassword\<close> are strings, as the route's
  documented request schema has them; an absent field is \<open>None\<close>, and the empty string is
  falsy. The query of \<open>findOne\<close> asks for the document with the decoded \<open>_id\<close>, the same
  stored reset token and a stored expiry after \<open>now\<close>. Everything thrown inside the
  handler, by \<open>jwt.verify\<close> or by the store, is answered with 400 "Invalid token".
\<close>

definition resetPassword ::
  "verifier \<Rightarrow> faults \<Rightarrow> int \<Rightarrow> users \<Rightarrow> string option \<Rightarrow> string option
     \<Rightarrow> (reply \<times> users) \<times> call list" where
  "resetPassword verify flt now usrs tokenField newPassword =
     (case (tokenField, newPassword) of
        (Some tok, Some pw) \<Rightarrow>
          if tok = [] \<or> pw = [] then
            ((handleValidationError ''Token and new password are required'' None, usrs), [])
          else
            (case verify tok of
               Inl err \<Rightarrow> ((handleError err 400 ''Invalid token'', usrs), [JwtVerify tok])
             | Inr decoded \<Rightarrow>
                 (case flt (UserFindOne (userId decoded) tok now) of
                    Some err \<Rightarrow>
                      ((handleError err 400 ''Invalid token'', usrs),
                       [JwtVerify tok, UserFindOne (userId decoded) tok now])
                  | None \<Rightarrow>
                      (case usrs (userId decoded) of
                         None \<Rightarrow>
                           ((handleNotFoundError ''Invalid or expired token'' None, usrs),
                            [JwtVerify tok, UserFindOne (userId decoded) tok now])
                       | Some u \<Rightarrow>
                           if resetPasswordToken u = Some tok
                              \<and> (case resetPasswordExpires u of None \<Rightarrow> False | Some e \<Rightarrow> now < e)
                           then
                             (case flt (UserSave (userId decoded)) of
                                Some err \<Rightarrow>
                                  ((handleError err 400 ''Invalid token'', usrs),
                                   [JwtVerify tok, UserFindOne (userId decoded) tok now,
                                    UserSave (userId decoded)])
                              | None \<Rightarrow>
                                  ((json_ok ''Password reset'' ''Password reset successful'',
                                    usrs(userId decoded \<mapsto>
                                      u\<lparr>password := pw, resetPasswordToken := None,
                                        resetPasswordExpires := None\<rparr>)),
                                   [JwtVerify tok, UserFindOne (userId decoded) tok now,
                                    UserSave (userId decoded)]))
                           else
                             ((handleNotFoundError ''Invalid or expired token'' None, usrs),
                              [JwtVerify tok, UserFindOne (userId decoded) tok now]))))
      | _ \<Rightarrow> ((handleValidationError ''Token and new password are required'' None, usrs), []))"

section \<open>Posts and comments (the post controller in routes/postRoutes.js,
  controllers/commentController.js)\<close>

text \<open>
  The text of a request body and of a post is a JavaScript string: a list of UTF-16 code
  units, each a number. \<open>trim()\<close> tells code units apart by their value, so these strings
  are kept as numbers; headers, tokens, ids and messages, which the handlers only compare
  and cut at the space, stay \<open>string\<close>. \<open>units\<close> gives the code units of such a string.
\<close>

definition units :: "string \<Rightarrow> nat list" where
  "units s = map of_char s"

text \<open>
  A field of a JSON request body. Numbers enter the handlers only through their
  truthiness and their \<open>typeof\<close>, objects only as truthy values that are neither strings
  nor arrays.
\<close>

datatype jsval =
    JUndefined
  | JNull
  | JBool bool
  | JNum int
  | JStr "nat list"
  | JArr "jsval list"
  | JObj

fun truthy :: "jsval \<Rightarrow> bool" where
  "truthy JUndefined = False"
| "truthy JNull = False"
| "truthy (JBool b) = b"
| "truthy (JNum n) = (n \<noteq> 0)"
| "truthy (JStr s) = (s \<noteq> [])"
| "truthy (JArr xs) = True"
| "truthy JObj = True"

fun isString :: "jsval \<Rightarrow> bool" where
  "isString (JStr s) = True"
| "isString v = False"

text \<open>
  \<open>s.trim()\<close> removes the white space and the line terminators of ECMAScript from both
  ends: tab, line feed, vertical tab, form feed, carriage return, space, the no-break
  space U+00A0, U+1680, U+2000 to U+200A, the line and paragraph separators U+2028 and
  U+2029, U+202F, U+205F, U+3000 and the byte order mark U+FEFF.
\<close>

definition whitespace :: "nat \<Rightarrow> bool" where
  "whitespace u =
     (u \<in> {0x09, 0x0A, 0x0B, 0x0C, 0x0D, 0x20, 0xA0, 0x1680, 0x2028, 0x2029, 0x202F, 0x205F,
            0x3000, 0xFEFF}
      \<or> (0x2000 \<le> u \<and> u \<le> 0x200A))"

definition trim :: "nat list \<Rightarrow> nat list" where
  "trim s = rev (dropWhile whitespace (rev (dropWhile whitespace s)))"

text \<open>
  Mongoose's part: \<open>mongoose.isValidObjectId\<close>, and the cast of a value assigned to a
  path of type \<open>ObjectId\<close>. Both are parameters of the model.
\<close>

record mongoose =
  isValidObjectId :: "jsval \<Rightarrow> bool"
  castObjectId :: "jsval \<Rightarrow> string"

text \<open>The \<open>Post\<close> schema (models/Post.js, at the end of middleware/authMiddleware.js);
  paths that are not required may be undefined. Documents are kept under the id that
  \<open>findById\<close> is given.\<close>

record post =
  title :: "nat list"
  content :: "nat list"
  author :: "string option"
  category :: "string option"
  tags :: "nat list list"
  published :: bool
  createdAt :: int

type_synonym posts = "string \<rightharpoonup> post"

text \<open>The body of \<open>PUT /posts/:postId\<close>.\<close>

record update =
  newTitle :: jsval
  newContent :: jsval
  newCategory :: jsval
  newTags :: jsval

text \<open>The four validations of \<open>updatePost\<close>, in the order of the source.\<close>

definition badText :: "jsval \<Rightarrow> bool" where
  "badText v = (truthy v \<and> (case v of JStr s \<Rightarrow> length (trim s) = 0 | _ \<Rightarrow> True))"

definition badTags :: "jsval \<Rightarrow> bool" where
  "badTags v =
     (truthy v \<and> (case v of JArr xs \<Rightarrow> list_ex (\<lambda>tag. \<not> isString tag) xs | _ \<Rightarrow> True))"

text \<open>The four assignments of \<open>updatePost\<close>. They run after the validations, so a truthy
  title or content is a string (\<open>trimmed\<close> is its \<open>trim()\<close>) and truthy tags are an array
  of strings (\<open>strings\<close> lists them); the category is stored as Mongoose casts it.\<close>

fun trimmed :: "jsval \<Rightarrow> nat list" where
  "trimmed (JStr s) = trim s"
| "trimmed v = []"

fun strings :: "jsval \<Rightarrow> nat list list" where
  "strings (JArr xs) = concat (map (\<lambda>tag. case tag of JStr s \<Rightarrow> [s] | _ \<Rightarrow> []) xs)"
| "strings v = []"

definition assign :: "update \<Rightarrow> mongoose \<Rightarrow> post \<Rightarrow> post" where
  "assign body mg p =
     p\<lparr>title := (if truthy (newTitle body) then trimmed (newTitle body) else title p),
       content := (if truthy (newContent body) then trimmed (newContent body) else content p),
       category :=
         (if truthy (newCategory body) then Some (castObjectId mg (newCategory body))
          else category p),
       tags := (if truthy (newTags body) then strings (newTags body) else tags p)\<rparr>"

text \<open>
  \<open>updatePost\<close>. \<open>post.author.toString()\<close> throws a \<open>TypeError\<close> when the post has no
  author; like every error thrown in the handler it is answered by \<open>handleDatabaseError\<close>
  (the message of the error is shortened here).
  The post is written by \<open>save\<close>; when the read that follows it fails, the answer is 500
  and the post stays written.
\<close>

definition updatePost ::
  "mongoose \<Rightarrow> faults \<Rightarrow> posts \<Rightarrow> users \<Rightarrow> payload \<Rightarrow> string \<Rightarrow> update
     \<Rightarrow> (reply \<times> posts) \<times> call list" where
  "updatePost mg flt psts usrs reqUser postId body =
     (if postId = [] \<or> \<not> isValidObjectId mg (JStr (units postId)) then
        ((handleValidationError ''Invalid post ID'' None, psts), [])
      else if badText (newTitle body) then
        ((handleValidationError ''Title must be a non-empty string'' None, psts), [])
      else if badText (newContent body) then
        ((handleValidationError ''Content must be a non-empty string'' None, psts), [])
      else if truthy (newCategory body) \<and> \<not> isValidObjectId mg (newCategory body) then
        ((handleValidationError ''Invalid category ID'' None, psts), [])
      else if badTags (newTags body) then
        ((handleValidationError ''Tags must be an array of strings'' None, psts), [])
      else
        (case flt (PostFindById postId) of
           Some err \<Rightarrow> ((handleDatabaseError err None, psts), [PostFindById postId])
         | None \<Rightarrow>
        (case psts postId of
           None \<Rightarrow> ((handleNotFoundError ''Post not found'' None, psts), [PostFindById postId])
         | Some p \<Rightarrow>
        (case flt (UserFindById (userId reqUser)) of
           Some err \<Rightarrow>
             ((handleDatabaseError err None, psts),
              [PostFindById postId, UserFindById (userId reqUser)])
         | None \<Rightarrow>
        (case usrs (userId reqUser) of
           None \<Rightarrow>
             ((handleNotFoundError ''User not found'' None, psts),
              [PostFindById postId, UserFindById (userId reqUser)])
         | Some u \<Rightarrow>
        (case author p of
           None \<Rightarrow>
             ((handleDatabaseError ''Cannot read properties of undefined'' None, psts),
              [PostFindById postId, UserFindById (userId reqUser)])
         | Some a \<Rightarrow>
             if a \<noteq> userId reqUser \<and> role u \<noteq> ''admin'' then
               ((handleAuthError ''Not authorized to update this post'' None, psts),
                [PostFindById postId, UserFindById (userId reqUser)])
             else
               (case flt (PostSave postId) of
                  Some err \<Rightarrow>
                    ((handleDatabaseError err None, psts),
                     [PostFindById postId, UserFindById (userId reqUser), PostSave postId])
                | None \<Rightarrow>
                    (case flt (PostPopulate postId) of
                       Some err \<Rightarrow>
                         ((handleDatabaseError err None, psts(postId \<mapsto> assign body mg p)),
                          [PostFindById postId, UserFindById (userId reqUser), PostSave postId,
                           PostPopulate postId])
                     | None \<Rightarrow>
                         ((json_ok ''Post updated'' ''Post updated successfully'',
                           psts(postId \<mapsto> assign body mg p)),
                          [PostFindById postId, UserFindById (userId reqUser), PostSave postId,
                           PostPopulate postId])))))))))"

definition deletePost ::
  "mongoose \<Rightarrow> faults \<Rightarrow> posts \<Rightarrow> users \<Rightarrow> payload \<Rightarrow> string
     \<Rightarrow> (reply \<times> posts) \<times> call list" where
  "deletePost mg flt psts usrs reqUser postId =
     (if postId = [] \<or> \<not> isValidObjectId mg (JStr (units postId)) then
        ((handleValidationError ''Invalid post ID'' None, psts), [])
      else
        (case flt (PostFindById postId) of
           Some err \<Rightarrow> ((handleDatabaseError err None, psts), [PostFindById postId])
         | None \<Rightarrow>
        (case psts postId of
           None \<Rightarrow> ((handleNotFoundError ''Post not found'' None, psts), [PostFindById postId])
         | Some p \<Rightarrow>
        (case flt (UserFindById (userId reqUser)) of
           Some err \<Rightarrow>
             ((handleDatabaseError err None, psts),
              [PostFindById postId, UserFindById (userId reqUser)])
         | None \<Rightarrow>
        (case usrs (userId reqUser) of
           None \<Rightarrow>
             ((handleNotFoundError ''User not found'' None, psts),
              [PostFindById postId, UserFindById (userId reqUser)])
         | Some u \<Rightarrow>
        (case author p of
           None \<Rightarrow>
             ((handleDatabaseError ''Cannot read properties of undefined'' None, psts),
              [PostFindById postId, UserFindById (userId reqUser)])
         | Some a \<Rightarrow>
             if a \<noteq> userId reqUser \<and> role u \<noteq> ''admin'' then
               ((handleAuthError ''Not authorized to delete this post'' None, psts),
                [PostFindById postId, UserFindById (userId reqUser)])
             else
               (case flt (PostDeleteOne postId) of
                  Some err \<Rightarrow>
                    ((handleDatabaseError err None, psts),
                     [PostFindById postId, UserFindById (userId reqUser), PostDeleteOne postId])
                | None \<Rightarrow>
                    ((json_ok ''Post deleted'' ''Post deleted successfully'', psts(postId := None)),
                     [PostFindById postId, UserFindById (userId reqUser),
                      PostDeleteOne postId]))))))))"

text \<open>
  The \<open>Comment\<close> model is not among the sources; \<open>deleteComment\<close> reads one path of the
  document, \<open>author\<close>, taken here as a path that may be undefined, like the post's.
\<close>

record comment =
  commentAuthor :: "string option"
  commentText :: "nat list"

type_synonym comments = "string \<rightharpoonup> comment"

definition deleteComment ::
  "mongoose \<Rightarrow> faults \<Rightarrow> comments \<Rightarrow> users \<Rightarrow> payload \<Rightarrow> string
     \<Rightarrow> (reply \<times> comments) \<times> call list" where
  "deleteComment mg flt cmts usrs reqUser commentId =
     (if commentId = [] \<or> \<not> isValidObjectId mg (JStr (units commentId)) then
        ((handleValidationError ''Invalid comment ID'' None, cmts), [])
      else
        (case flt (CommentFindById commentId) of
           Some err \<Rightarrow> ((handleDatabaseError err None, cmts), [CommentFindById commentId])
         | None \<Rightarrow>
        (case cmts commentId of
           None \<Rightarrow>
             ((handleNotFoundError ''Comment not found'' None, cmts), [CommentFindById commentId])
         | Some c \<Rightarrow>
        (case flt (UserFindById (userId reqUser)) of
           Some err \<Rightarrow>
             ((handleDatabaseError err None, cmts),
              [CommentFindById commentId, UserFindById (userId reqUser)])
         | None \<Rightarrow>
        (case usrs (userId reqUser) of
           None \<Rightarrow>
             ((handleNotFoundError ''User not found'' None, cmts),
              [CommentFindById commentId, UserFindById (userId reqUser)])
         | Some u \<Rightarrow>
        (case commentAuthor c of
           None \<Rightarrow>
             ((handleDatabaseError ''Cannot read properties of undefined'' None, cmts),
              [CommentFindById commentId, UserFindById (userId reqUser)])
         | Some a \<Rightarrow>
             if a \<noteq> userId reqUser \<and> role u \<noteq> ''admin'' then
               ((handleAuthError ''Not authorized to delete this comment'' None, cmts),
                [CommentFindById commentId, UserFindById (userId reqUser)])
             else
               (case flt (CommentDeleteOne commentId) of
                  Some err \<Rightarrow>
                    ((handleDatabaseError err None, cmts),
                     [CommentFindById commentId, UserFindById (userId reqUser),
                      CommentDeleteOne commentId])
                | None \<Rightarrow>
                    ((json_ok ''Comment deleted'' ''Comment deleted successfully'',
                      cmts(commentId := None)),
                     [CommentFindById commentId, UserFindById (userId reqUser),
                      CommentDeleteOne commentId]))))))))"

section \<open>The failures by name, and sample collaborators\<close>

text \<open>
  The replies of the handlers, under the names the specification gives to the failures.
  \<open>MissingCredential\<close> and \<open>RevokedCredential\<close> send the same status and body; the line
  written to the log tells them apart.
\<close>

definition MissingCredential :: reply where
  "MissingCredential = handleAuthError ''No token provided'' None"

definition RevokedCredential :: reply where
  "RevokedCredential = handleAuthError ''Token is invalid'' None"

definition InvalidCredential :: "string \<Rightarrow> reply" where
  "InvalidCredential err = handleAuthError err (Some ''Token verification failed'')"

definition InvalidOrExpiredToken :: reply where
  "InvalidOrExpiredToken = handleNotFoundError ''Invalid or expired token'' None"

definition NotAuthorized :: "string \<Rightarrow> reply" where
  "NotAuthorized what = handleAuthError (''Not authorized to '' @ what) None"

definition UserNotFound :: reply where
  "UserNotFound = handleNotFoundError ''User not found'' None"

text \<open>
  The token part of a header that starts with \<open>Bearer\<close> and a space: what stands between
  that space and the next one.
\<close>

definition tokenPart :: "string \<Rightarrow> string" where
  "tokenPart h = takeWhile (\<lambda>c. c \<noteq> CHR '' '') (drop (length ''Bearer '') h)"

text \<open>A body that passes the four validations of \<open>updatePost\<close>.\<close>

definition validUpdate :: "mongoose \<Rightarrow> update \<Rightarrow> bool" where
  "validUpdate mg body =
     (\<not> (badText (newTitle body) \<or> badText (newContent body)
         \<or> (truthy (newCategory body) \<and> \<not> isValidObjectId mg (newCategory body))
         \<or> badTags (newTags body)))"

text \<open>
  Collaborators for the concrete runs below: a store whose calls never throw, a stand-in
  for Mongoose that takes the strings of 24 characters for object ids and casts them to
  themselves, and a verifier that accepts one token, \<open>J\<close>, for the identity \<open>u1\<close>.
\<close>

definition noFaults :: faults where
  "noFaults c = None"

definition sampleMongoose :: mongoose where
  "sampleMongoose =
     \<lparr>isValidObjectId = (\<lambda>v. case v of JStr s \<Rightarrow> length s = 24 | _ \<Rightarrow> False),
      castObjectId = (\<lambda>v. case v of JStr s \<Rightarrow> map char_of s | _ \<Rightarrow> [])\<rparr>"

definition sampleVerify :: verifier where
  "sampleVerify t = (if t = ''J'' then Inr \<lparr>userId = ''u1''\<rparr> else Inl ''jwt malformed'')"

definition rejectAll :: verifier where
  "rejectAll t = Inl ''jwt expired''"

definition samplePost :: post where
  "samplePost =
     \<lparr>title = units ''Old title'', content = units ''Old content'', author = Some ''u1'',
      category = Some ''64b7f0c2a1d3e4f5a6b7c8aa'', tags = [units ''x''], published = True,
      createdAt = 1700000000000\<rparr>"

definition sampleComment :: comment where
  "sampleComment = \<lparr>commentAuthor = Some ''u1'', commentText = units ''first''\<rparr>"

definition sampleUser :: "string \<Rightarrow> user" where
  "sampleUser r =
     \<lparr>password = ''hash'', role = r, resetPasswordToken = None, resetPasswordExpires = None\<rparr>"

section \<open>Code units\<close>

lemma length_units [simp]: "length (units s) = length s"
  by (simp add: units_def)

lemma units_eq_Nil [simp]: "(units s = []) = (s = [])"
  by (simp add: units_def)

section \<open>Reading the header\<close>

lemma split_nonempty: "split c s \<noteq> []"
  by (induction s) (auto split: list.splits)

lemma hd_split: "hd (split c s) = takeWhile (\<lambda>x. x \<noteq> c) s"
  by (induction s) (auto split: list.splits simp: split_nonempty)

lemma split_prefix: "c \<notin> set p \<Longrightarrow> split c (p @ c # r) = p # split c r"
  by (induction p) (auto split: list.splits)

lemma second_split:
  assumes "c \<notin> set p"
  shows "second (split c (p @ c # r)) = Some (takeWhile (\<lambda>x. x \<noteq> c) r)"
proof -
  have "split c (p @ c # r) = p # split c r"
    using assms by (rule split_prefix)
  moreover obtain w ws where "split c r = w # ws"
    using split_nonempty[of c r] by (cases "split c r") auto
  moreover have "hd (split c r) = takeWhile (\<lambda>x. x \<noteq> c) r"
    by (rule hd_split)
  ultimately show ?thesis by simp
qed

lemma startsWith_append: "startsWith h p \<Longrightarrow> h = p @ drop (length p) h"
  unfolding startsWith_def by (metis append_take_drop_id)

lemma headerToken_Bearer:
  assumes "startsWith h ''Bearer ''"
  shows "headerToken (Some h) = Some (tokenPart h)"
proof -
  let ?r = "drop (length ''Bearer '') h"
  have "h = ''Bearer '' @ ?r" by (rule startsWith_append[OF assms])
  then have h: "h = ''Bearer'' @ CHR '' '' # ?r" by simp
  have "second (split CHR '' '' (''Bearer'' @ CHR '' '' # ?r))
          = Some (takeWhile (\<lambda>x. x \<noteq> CHR '' '') ?r)"
    by (rule second_split) simp
  with h have "second (split CHR '' '' h) = Some (takeWhile (\<lambda>x. x \<noteq> CHR '' '') ?r)"
    by metis
  moreover have "h \<noteq> []" using h by auto
  ultimately show ?thesis using assms by (simp add: headerToken_def tokenPart_def)
qed

lemma headerToken_not_Bearer: "\<not> startsWith h ''Bearer '' \<Longrightarrow> headerToken (Some h) = None"
  by (simp add: headerToken_def)

lemma takeWhile_all: "c \<notin> set t \<Longrightarrow> takeWhile (\<lambda>x. x \<noteq> c) t = t"
  by (induction t) auto

lemma headerToken_plain:
  assumes "CHR '' '' \<notin> set tok"
  shows "headerToken (Some (''Bearer '' @ tok)) = Some tok"
proof -
  have "startsWith (''Bearer '' @ tok) ''Bearer ''" by (simp add: startsWith_def)
  from headerToken_Bearer[OF this] show ?thesis
    using takeWhile_all[OF assms] by (simp add: tokenPart_def)
qed

lemma headerToken_abc: "headerToken (Some ''Bearer abc'') = Some ''abc''"
  by (simp add: headerToken_def startsWith_def)

lemma replace_prefix: "p \<noteq> [] \<Longrightarrow> replace p r (p @ t) = r @ t"
  by (cases p) (auto simp: startsWith_def)

section \<open>The blacklist lookup of \<open>protect\<close>\<close>

lemma find_token_None_iff:
  "(find (\<lambda>e. token e = tok) xs = None) = (tok \<notin> token ` set xs)"
  by (induction xs) auto

lemma protect_listed:
  assumes "headerToken authorization = Some tok" and "tok \<noteq> []"
    and "flt (BlacklistFindOne tok) = None" and "tok \<in> token ` set blacklist"
  shows "protect verify flt blacklist authorization =
           (Responded RevokedCredential, [BlacklistFindOne tok])"
proof -
  from assms(4) obtain e where "find (\<lambda>e. token e = tok) blacklist = Some e"
    using find_token_None_iff[of tok blacklist] by (cases "find (\<lambda>e. token e = tok) blacklist") auto
  with assms(1-3) show ?thesis
    by (simp add: protect_def RevokedCredential_def)
qed

lemma protect_unlisted:
  assumes "headerToken authorization = Some tok" and "tok \<noteq> []"
    and "flt (BlacklistFindOne tok) = None" and "tok \<notin> token ` set blacklist"
  shows "protect verify flt blacklist authorization =
           (case verify tok of
              Inl err \<Rightarrow> (Responded (InvalidCredential err), [BlacklistFindOne tok, JwtVerify tok])
            | Inr decoded \<Rightarrow> (Next decoded, [BlacklistFindOne tok, JwtVerify tok]))"
  using assms(1-3) assms(4)[folded find_token_None_iff]
  by (simp add: protect_def InvalidCredential_def split: sum.splits)

lemma protect_find_cong:
  assumes "(find (\<lambda>e. token e = tok) bl1 = None) = (find (\<lambda>e. token e = tok) bl2 = None)"
    and "headerToken authorization = Some tok"
  shows "protect verify flt bl1 authorization = protect verify flt bl2 authorization"
  using assms
  by (cases "find (\<lambda>e. token e = tok) bl1"; cases "find (\<lambda>e. token e = tok) bl2")
    (auto simp: protect_def split: option.splits)

lemma protect_same_tokens:
  assumes "token ` set bl1 = token ` set bl2"
  shows "protect verify flt bl1 authorization = protect verify flt bl2 authorization"
proof (cases "headerToken authorization")
  case None
  then show ?thesis by (simp add: protect_def)
next
  case (Some tok)
  have "(find (\<lambda>e. token e = tok) bl1 = None) = (find (\<lambda>e. token e = tok) bl2 = None)"
    by (simp add: find_token_None_iff assms)
  from protect_find_cong[OF this Some] show ?thesis .
qed

lemma restamp_tokens: "token ` set (map (\<lambda>d. d\<lparr>expiresAt := f d\<rparr>) blacklist) = token ` set blacklist"
  by (induction blacklist) auto

text \<open>
  C9. \<open>protect\<close> answers \<open>MissingCredential\<close> whenever the Authorization header is absent,
  does not start with \<open>Bearer\<close> and a space, or has an empty token part; it then makes no
  call at all: no blacklist lookup, no signature verification.
\<close>

theorem protect_missing_credential:
  assumes "authorization = None
           \<or> (\<exists>h. authorization = Some h \<and> (\<not> startsWith h ''Bearer '' \<or> tokenPart h = []))"
  shows "protect verify flt blacklist authorization = (Responded MissingCredential, [])"
proof -
  have "headerToken authorization = None \<or> headerToken authorization = Some []"
  proof (cases authorization)
    case None
    then show ?thesis by (simp add: headerToken_def)
  next
    case (Some h)
    show ?thesis
    proof (cases "startsWith h ''Bearer ''")
      case True
      with assms Some have "tokenPart h = []" by auto
      with headerToken_Bearer[OF True] Some show ?thesis by simp
    next
      case False
      with Some show ?thesis by (simp add: headerToken_not_Bearer)
    qed
  qed
  then show ?thesis by (auto simp: protect_def MissingCredential_def)
qed

theorem protect_missing_credential_witness:
  "protect sampleVerify noFaults [] None = (Responded MissingCredential, [])
   \<and> protect sampleVerify noFaults [] (Some ''Basic J'') = (Responded MissingCredential, [])
   \<and> protect sampleVerify noFaults [] (Some ''Bearer '') = (Responded MissingCredential, [])
   \<and> protect sampleVerify noFaults [] (Some ''Bearer  J'') = (Responded MissingCredential, [])"
proof -
  have a: "\<not> startsWith ''Basic J'' ''Bearer ''" by (simp add: startsWith_def)
  have b: "tokenPart ''Bearer '' = []" by (simp add: tokenPart_def)
  have c: "tokenPart ''Bearer  J'' = []" by (simp add: tokenPart_def)
  show ?thesis
    using protect_missing_credential[of None sampleVerify noFaults "[]"]
      protect_missing_credential[of "Some ''Basic J''" sampleVerify noFaults "[]"]
      protect_missing_credential[of "Some ''Bearer ''" sampleVerify noFaults "[]"]
      protect_missing_credential[of "Some ''Bearer  J''" sampleVerify noFaults "[]"]
      a b c by simp
qed

text \<open>
  C2. In \<open>protect\<close> the blacklist lookup comes before the verification: for every token
  that has an entry in the blacklist, the answer is \<open>RevokedCredential\<close> whatever the
  verifier would say of the token (invalid signature, expired, or valid), and the only
  call made is the lookup: \<open>jwt.verify\<close> is not reached.
\<close>

theorem blacklist_before_verify:
  assumes "headerToken authorization = Some tok" and "tok \<noteq> []"
    and "flt (BlacklistFindOne tok) = None" and "tok \<in> token ` set blacklist"
  shows "protect verify flt blacklist authorization =
           (Responded RevokedCredential, [BlacklistFindOne tok])
         \<and> JwtVerify tok \<notin> set (snd (protect verify flt blacklist authorization))"
  using protect_listed[where flt = flt, OF assms] by simp

theorem blacklist_before_verify_witness:
  "protect rejectAll noFaults [\<lparr>token = ''abc'', expiresAt = 5\<rparr>] (Some ''Bearer abc'')
     = (Responded RevokedCredential, [BlacklistFindOne ''abc''])
   \<and> protect sampleVerify noFaults [\<lparr>token = ''J'', expiresAt = 5\<rparr>] (Some ''Bearer J'')
     = (Responded RevokedCredential, [BlacklistFindOne ''J''])"
proof -
  have h: "headerToken (Some ''Bearer J'') = Some ''J''"
    by (simp add: headerToken_def startsWith_def)
  show ?thesis
    using blacklist_before_verify[where flt = noFaults and verify = rejectAll
        and blacklist = "[\<lparr>token = ''abc'', expiresAt = 5\<rparr>]", OF headerToken_abc]
      blacklist_before_verify[where flt = noFaults and verify = sampleVerify
        and blacklist = "[\<lparr>token = ''J'', expiresAt = 5\<rparr>]", OF h]
    by (simp add: noFaults_def)
qed

text \<open>
  C5. When the blacklist lookup throws (the store is unavailable or errs), \<open>protect\<close>
  fails closed: it answers 401, does not reach the verification and does not call
  \<open>next()\<close>, whatever the verifier would say of the token.
\<close>

theorem lookup_failure_denies:
  assumes "headerToken authorization = Some tok" and "tok \<noteq> []"
    and "flt (BlacklistFindOne tok) = Some err"
  shows "protect verify flt blacklist authorization =
           (Responded (InvalidCredential err), [BlacklistFindOne tok])
         \<and> status (InvalidCredential err) = 401"
  using assms by (simp add: protect_def InvalidCredential_def handleAuthError_def handleError_def)

theorem lookup_failure_denies_witness:
  "protect sampleVerify (noFaults(BlacklistFindOne ''J'' := Some ''connection lost'')) []
     (Some ''Bearer J'')
   = (Responded
        \<lparr>status = 401, message = ''Token verification failed'', logged = ''connection lost''\<rparr>,
      [BlacklistFindOne ''J''])"
proof -
  have h: "headerToken (Some ''Bearer J'') = Some ''J''"
    by (simp add: headerToken_def startsWith_def)
  show ?thesis
    using lookup_failure_denies[where flt = "noFaults(BlacklistFindOne ''J'' := Some ''connection lost'')"
        and err = "''connection lost''" and verify = sampleVerify and blacklist = "[]", OF h]
    by (simp add: InvalidCredential_def handleAuthError_def handleError_def)
qed

text \<open>
  C6. The lookup of \<open>protect\<close> does not look at \<open>expiresAt\<close>: a token that has an entry in
  the blacklist is answered with \<open>RevokedCredential\<close> whatever the entry's expiry is, so
  also when it lies in the past (\<open>protect\<close> reads no clock); and stamping the entries
  with any other expiries leaves every answer of \<open>protect\<close> as it was.
\<close>

theorem lookup_ignores_expiresAt:
  assumes "headerToken authorization = Some tok" and "tok \<noteq> []"
    and "flt (BlacklistFindOne tok) = None"
    and "e \<in> set blacklist" and "token e = tok"
  shows "protect verify flt blacklist authorization =
           (Responded RevokedCredential, [BlacklistFindOne tok])
         \<and> (\<forall>f othr. protect verify flt (map (\<lambda>d. d\<lparr>expiresAt := f d\<rparr>) blacklist) othr
                = protect verify flt blacklist othr)"
proof -
  from assms(4,5) have "tok \<in> token ` set blacklist" by auto
  from protect_listed[where flt = flt, OF assms(1-3) this]
  have "protect verify flt blacklist authorization =
           (Responded RevokedCredential, [BlacklistFindOne tok])" .
  moreover have "protect verify flt (map (\<lambda>d. d\<lparr>expiresAt := f d\<rparr>) blacklist) othr
                = protect verify flt blacklist othr" for f othr
    by (rule protect_same_tokens[OF restamp_tokens])
  ultimately show ?thesis by blast
qed

theorem lookup_ignores_expiresAt_witness:
  "protect sampleVerify noFaults [\<lparr>token = ''J'', expiresAt = 0\<rparr>] (Some ''Bearer J'')
     = (Responded RevokedCredential, [BlacklistFindOne ''J''])"
proof -
  have h: "headerToken (Some ''Bearer J'') = Some ''J''"
    by (simp add: headerToken_def startsWith_def)
  show ?thesis
    using lookup_ignores_expiresAt[where flt = noFaults and verify = sampleVerify
        and e = "\<lparr>token = ''J'', expiresAt = 0\<rparr>"
        and blacklist = "[\<lparr>token = ''J'', expiresAt = 0\<rparr>]", OF h]
    by (simp add: noFaults_def)
qed

section \<open>Revoking and signing out\<close>

lemma addToBlacklist_tokens:
  "token ` set (snd (fst (addToBlacklist flt now tok bl))) \<subseteq> insert tok (token ` set bl)"
  by (auto simp: addToBlacklist_def Let_def split: option.splits)

lemma addToBlacklist_success:
  "addToBlacklist flt now tok bl = ((None, bl'), tr)
     \<Longrightarrow> bl' = bl @ [\<lparr>token = tok, expiresAt = now + 2592000000\<rparr>]"
  by (auto simp: addToBlacklist_def Let_def split: option.splits)

lemma addToBlacklist_keeps:
  "set bl \<subseteq> set (snd (fst (addToBlacklist flt now tok bl)))"
  by (auto simp: addToBlacklist_def Let_def split: option.splits)

lemma signoutUser_success:
  assumes "signoutUser flt now blacklist (Some h) = ((r, bl), tr)" and "status r = 200"
  shows "replace ''Bearer '' [] h \<in> token ` set bl"
  using assms
  by (auto simp: signoutUser_def addToBlacklist_def Let_def handleValidationError_def
      handleDatabaseError_def handleError_def json_ok_def
      simp del: replace.simps split: option.splits if_splits)

text \<open>
  For a token without a space the two readings of the header agree, and a sign-out that
  was answered with 200 is followed by \<open>RevokedCredential\<close>.
\<close>

lemma signout_then_protect:
  assumes "CHR '' '' \<notin> set tok" and "tok \<noteq> []"
    and "signoutUser flt1 now blacklist (Some (''Bearer '' @ tok)) = ((r, bl), tr)"
    and "status r = 200"
    and "flt (BlacklistFindOne tok) = None"
  shows "protect verify flt bl (Some (''Bearer '' @ tok)) =
           (Responded RevokedCredential, [BlacklistFindOne tok])"
proof -
  have "replace ''Bearer '' [] (''Bearer '' @ tok) = tok"
    using replace_prefix[of "''Bearer ''" "[]" tok] by simp
  with signoutUser_success[OF assms(3,4)] have "tok \<in> token ` set bl" by simp
  from protect_listed[where flt = flt, OF headerToken_plain[OF assms(1)] assms(2) assms(5) this]
  show ?thesis .
qed

text \<open>
  C1. A token passed to sign-out is refused afterwards with \<open>RevokedCredential\<close>. The run
  below is a request whose header carries a further part after the token: \<open>protect\<close>
  admits it as the token \<open>J\<close>, \<open>signoutUser\<close> answers 200 and blacklists the string
  \<open>J x\<close>, and \<open>protect\<close> admits the same header again.
\<close>

theorem signout_extra_part_still_admitted:
  "fst (protect sampleVerify noFaults [] (Some ''Bearer J x'')) = Next \<lparr>userId = ''u1''\<rparr>
   \<and> fst (signoutUser noFaults 1000 [] (Some ''Bearer J x''))
       = (json_ok ''User signed out'' ''Successfully signed out'',
          [\<lparr>token = ''J x'', expiresAt = 2592001000\<rparr>])
   \<and> protect sampleVerify noFaults [\<lparr>token = ''J x'', expiresAt = 2592001000\<rparr>]
         (Some ''Bearer J x'')
       = (Next \<lparr>userId = ''u1''\<rparr>, [BlacklistFindOne ''J'', JwtVerify ''J''])"
  by (simp add: protect_def signoutUser_def addToBlacklist_def headerToken_def startsWith_def
      sampleVerify_def noFaults_def)

text \<open>
  C7, as the code has it. After a revocation that succeeded, a second \<open>addToBlacklist\<close>
  of the same token does one of two things. Either \<open>create\<close> succeeds, and the
  collection holds one more document for the token, with the expiry of the second call:
  the stored state is not the one a single call leaves. Or \<open>create\<close> throws, the error
  is rethrown and the collection is as it was. In both cases the set of blacklisted
  tokens is the one a single call leaves, and every answer of \<open>protect\<close> with it.
\<close>

theorem second_revoke_adds_no_token:
  assumes "addToBlacklist flt1 now1 tok bl = ((None, bl1), tr1)"
    and "addToBlacklist flt2 now2 tok bl1 = ((res2, bl2), tr2)"
  shows "((res2 = None \<and> bl2 = bl1 @ [\<lparr>token = tok, expiresAt = now2 + 2592000000\<rparr>])
          \<or> (res2 \<noteq> None \<and> res2 = flt2 (BlacklistCreate tok (now2 + 2592000000)) \<and> bl2 = bl1))
         \<and> token ` set bl2 = token ` set bl1
         \<and> (\<forall>verify flt authorization.
               protect verify flt bl2 authorization = protect verify flt bl1 authorization)"
proof -
  have shape: "(res2 = None \<and> bl2 = bl1 @ [\<lparr>token = tok, expiresAt = now2 + 2592000000\<rparr>])
          \<or> (res2 \<noteq> None \<and> res2 = flt2 (BlacklistCreate tok (now2 + 2592000000)) \<and> bl2 = bl1)"
  proof (cases "flt2 (BlacklistCreate tok (now2 + 2592000000))")
    case None
    with assms(2) show ?thesis by (simp add: addToBlacklist_def Let_def)
  next
    case (Some err)
    with assms(2) have "res2 = Some err" and "bl2 = bl1"
      by (auto simp: addToBlacklist_def Let_def)
    with Some show ?thesis by simp
  qed
  from addToBlacklist_success[OF assms(1)] have "tok \<in> token ` set bl1" by simp
  moreover have "token ` set bl2 \<subseteq> insert tok (token ` set bl1)"
    using addToBlacklist_tokens[of flt2 now2 tok bl1] assms(2) by simp
  moreover have "set bl1 \<subseteq> set bl2"
    using addToBlacklist_keeps[of bl1 flt2 now2 tok] assms(2) by simp
  ultimately have "token ` set bl2 = token ` set bl1" by blast
  with shape show ?thesis using protect_same_tokens by blast
qed

theorem second_revoke_adds_no_token_witness:
  "token ` set [\<lparr>token = ''J'', expiresAt = 2592001000\<rparr>, \<lparr>token = ''J'', expiresAt = 2592002000\<rparr>]
     = token ` set [\<lparr>token = ''J'', expiresAt = 2592001000\<rparr>]
   \<and> (\<forall>verify flt authorization.
         protect verify flt
           [\<lparr>token = ''J'', expiresAt = 2592001000\<rparr>, \<lparr>token = ''J'', expiresAt = 2592002000\<rparr>]
           authorization
         = protect verify flt [\<lparr>token = ''J'', expiresAt = 2592001000\<rparr>] authorization)"
proof -
  have one: "addToBlacklist noFaults 1000 ''J'' []
               = ((None, [\<lparr>token = ''J'', expiresAt = 2592001000\<rparr>]),
                  [BlacklistCreate ''J'' 2592001000])"
    by (simp add: addToBlacklist_def noFaults_def)
  have two: "addToBlacklist noFaults 2000 ''J'' [\<lparr>token = ''J'', expiresAt = 2592001000\<rparr>]
               = ((None, [\<lparr>token = ''J'', expiresAt = 2592001000\<rparr>,
                          \<lparr>token = ''J'', expiresAt = 2592002000\<rparr>]),
                  [BlacklistCreate ''J'' 2592002000])"
    by (simp add: addToBlacklist_def noFaults_def)
  from second_revoke_adds_no_token[OF one two] show ?thesis by simp
qed

text \<open>
  Two revocations of \<open>J\<close>, both successful, leave two documents where one revocation
  leaves one: the stored state is not the same. And a store that refuses the second
  insert makes the second call fail, with the collection as the first call left it.
\<close>

theorem second_revoke_inserts_document:
  "fst (addToBlacklist noFaults 1000 ''J'' [])
     = (None, [\<lparr>token = ''J'', expiresAt = 2592001000\<rparr>])
   \<and> fst (addToBlacklist noFaults 2000 ''J'' [\<lparr>token = ''J'', expiresAt = 2592001000\<rparr>])
     = (None, [\<lparr>token = ''J'', expiresAt = 2592001000\<rparr>,
               \<lparr>token = ''J'', expiresAt = 2592002000\<rparr>])
   \<and> [\<lparr>token = ''J'', expiresAt = 2592001000\<rparr>, \<lparr>token = ''J'', expiresAt = 2592002000\<rparr>]
       \<noteq> [\<lparr>token = ''J'', expiresAt = 2592001000::int\<rparr>]
   \<and> fst (addToBlacklist (noFaults(BlacklistCreate ''J'' 2592002000 := Some ''E11000 duplicate key''))
            2000 ''J'' [\<lparr>token = ''J'', expiresAt = 2592001000\<rparr>])
     = (Some ''E11000 duplicate key'', [\<lparr>token = ''J'', expiresAt = 2592001000\<rparr>])"
  by (simp add: addToBlacklist_def noFaults_def)

section \<open>Password reset\<close>

lemma resetPassword_success:
  assumes "resetPassword verify flt now usrs tf pf = ((r, usrs'), tr)" and "status r = 200"
  shows "\<exists>tok pw d u. tf = Some tok \<and> tok \<noteq> [] \<and> pf = Some pw \<and> verify tok = Inr d
           \<and> usrs (userId d) = Some u \<and> resetPasswordToken u = Some tok
           \<and> usrs' = usrs(userId d \<mapsto> u\<lparr>password := pw, resetPasswordToken := None,
                                          resetPasswordExpires := None\<rparr>)"
  using assms
  by (auto simp: resetPassword_def handleValidationError_def handleNotFoundError_def
      handleError_def json_ok_def split: option.splits sum.splits if_splits)

text \<open>
  C8. A reset token is used at most once. When \<open>resetPassword\<close> succeeds, the stored
  reset token and its expiry are cleared from the identity's record; a second call with
  the same token, at any later time, with any new password and whatever the store does,
  does not succeed and changes nothing; and while the token still verifies (to the same
  payload), the second call is answered with \<open>InvalidOrExpiredToken\<close>.
\<close>

theorem reset_token_single_use:
  assumes "resetPassword verify1 flt1 now1 usrs (Some tok) pf1 = ((r1, usrs1), tr1)"
    and "status r1 = 200"
    and "resetPassword verify2 flt2 now2 usrs1 (Some tok) pf2 = ((r2, usrs2), tr2)"
    and "\<forall>d. verify2 tok = Inr d \<longrightarrow> verify1 tok = Inr d"
  shows "(\<exists>d u. verify1 tok = Inr d \<and> usrs1 (userId d) = Some u
            \<and> resetPasswordToken u = None \<and> resetPasswordExpires u = None)
         \<and> status r2 \<noteq> 200 \<and> usrs2 = usrs1
         \<and> ((\<exists>d. verify2 tok = Inr d \<and> flt2 (UserFindOne (userId d) tok now2) = None)
              \<and> pf2 \<noteq> None \<and> pf2 \<noteq> Some [] \<longrightarrow> r2 = InvalidOrExpiredToken)"
proof -
  from resetPassword_success[OF assms(1,2)] obtain pw d u where
    ne: "tok \<noteq> []" and v1: "verify1 tok = Inr d" and u: "usrs (userId d) = Some u"
    and usrs1: "usrs1 = usrs(userId d \<mapsto> u\<lparr>password := pw, resetPasswordToken := None,
                                          resetPasswordExpires := None\<rparr>)"
    by blast
  let ?u = "u\<lparr>password := pw, resetPasswordToken := None, resetPasswordExpires := None\<rparr>"
  have cleared: "usrs1 (userId d) = Some ?u" "resetPasswordToken ?u = None"
    "resetPasswordExpires ?u = None"
    using usrs1 by simp_all
  have first: "\<exists>d u. verify1 tok = Inr d \<and> usrs1 (userId d) = Some u
            \<and> resetPasswordToken u = None \<and> resetPasswordExpires u = None"
    using v1 cleared by auto
  have second: "status r2 \<noteq> 200 \<and> usrs2 = usrs1
         \<and> ((\<exists>d. verify2 tok = Inr d \<and> flt2 (UserFindOne (userId d) tok now2) = None)
              \<and> pf2 \<noteq> None \<and> pf2 \<noteq> Some [] \<longrightarrow> r2 = InvalidOrExpiredToken)"
  proof (cases "verify2 tok")
    case (Inl err)
    with assms(3) ne show ?thesis
      by (auto simp: resetPassword_def handleValidationError_def handleError_def
          split: option.splits if_splits)
  next
    case (Inr d')
    with assms(4) v1 have "d' = d" by auto
    with assms(3) ne Inr cleared show ?thesis
      by (auto simp: resetPassword_def handleValidationError_def handleNotFoundError_def
          handleError_def InvalidOrExpiredToken_def split: option.splits if_splits)
  qed
  from first second show ?thesis by simp
qed

theorem reset_token_single_use_witness:
  "fst (resetPassword sampleVerify noFaults 1000
          [''u1'' \<mapsto> \<lparr>password = ''hash'', role = ''user'', resetPasswordToken = Some ''J'',
                      resetPasswordExpires = Some 3601000\<rparr>]
          (Some ''J'') (Some ''fresh''))
     = (json_ok ''Password reset'' ''Password reset successful'',
        [''u1'' \<mapsto> \<lparr>password = ''fresh'', role = ''user'', resetPasswordToken = None,
                    resetPasswordExpires = None\<rparr>])
   \<and> fst (resetPassword sampleVerify noFaults 2000
          [''u1'' \<mapsto> \<lparr>password = ''fresh'', role = ''user'', resetPasswordToken = None,
                      resetPasswordExpires = None\<rparr>]
          (Some ''J'') (Some ''again''))
     = (InvalidOrExpiredToken,
        [''u1'' \<mapsto> \<lparr>password = ''fresh'', role = ''user'', resetPasswordToken = None,
                    resetPasswordExpires = None\<rparr>])"
proof -
  let ?u0 = "\<lparr>password = ''hash'', role = ''user'', resetPasswordToken = Some ''J'',
              resetPasswordExpires = Some 3601000\<rparr>"
  let ?u1 = "\<lparr>password = ''fresh'', role = ''user'', resetPasswordToken = None,
              resetPasswordExpires = None\<rparr>"
  have one: "resetPassword sampleVerify noFaults 1000 [''u1'' \<mapsto> ?u0] (Some ''J'') (Some ''fresh'')
               = ((json_ok ''Password reset'' ''Password reset successful'', [''u1'' \<mapsto> ?u1]),
                  [JwtVerify ''J'', UserFindOne ''u1'' ''J'' 1000, UserSave ''u1''])"
    by (simp add: resetPassword_def sampleVerify_def noFaults_def)
  obtain r2 usrs2 tr2 where two:
    "resetPassword sampleVerify noFaults 2000 [''u1'' \<mapsto> ?u1] (Some ''J'') (Some ''again'')
       = ((r2, usrs2), tr2)"
    by (metis surj_pair)
  have ok: "status (json_ok ''Password reset'' ''Password reset successful'') = 200"
    by (simp add: json_ok_def)
  have same: "\<forall>d. sampleVerify ''J'' = Inr d \<longrightarrow> sampleVerify ''J'' = Inr d" by simp
  have live: "\<exists>d. sampleVerify ''J'' = Inr d \<and> noFaults (UserFindOne (userId d) ''J'' 2000) = None"
    by (simp add: sampleVerify_def noFaults_def)
  from reset_token_single_use[OF one ok two same] live
  have "usrs2 = [''u1'' \<mapsto> ?u1]" and "r2 = InvalidOrExpiredToken" by simp_all
  with one two show ?thesis by simp
qed

section \<open>Updating a post\<close>

lemma assign_frame:
  "author (assign body mg p) = author p \<and> createdAt (assign body mg p) = createdAt p
   \<and> published (assign body mg p) = published p"
  by (simp add: assign_def)

lemma assign_falsy:
  "(\<not> truthy (newTitle body) \<longrightarrow> title (assign body mg p) = title p)
   \<and> (\<not> truthy (newContent body) \<longrightarrow> content (assign body mg p) = content p)
   \<and> (\<not> truthy (newCategory body) \<longrightarrow> category (assign body mg p) = category p)
   \<and> (\<not> truthy (newTags body) \<longrightarrow> tags (assign body mg p) = tags p)"
  by (simp add: assign_def)

lemma updatePost_posts:
  assumes "updatePost mg flt psts usrs reqUser postId body = ((r, psts'), tr)"
    and "psts postId = Some p"
  shows "psts' = psts \<or> psts' = psts(postId \<mapsto> assign body mg p)"
  using assms
  by (auto simp: updatePost_def split: if_splits option.splits)

text \<open>
  C10. Whatever \<open>updatePost\<close> answers, the post it was asked to update is still there
  with the same author, creation time and publication flag; each of title, content,
  category and tags whose field of the body is falsy (absent, null, the empty string)
  keeps its value; and no other post changes. Only title, content, category and tags
  can change.
\<close>

theorem updatePost_frame:
  assumes "updatePost mg flt psts usrs reqUser postId body = ((r, psts'), tr)"
    and "psts postId = Some p"
  shows "\<exists>p'. psts' postId = Some p'
           \<and> author p' = author p \<and> createdAt p' = createdAt p \<and> published p' = published p
           \<and> (\<not> truthy (newTitle body) \<longrightarrow> title p' = title p)
           \<and> (\<not> truthy (newContent body) \<longrightarrow> content p' = content p)
           \<and> (\<not> truthy (newCategory body) \<longrightarrow> category p' = category p)
           \<and> (\<not> truthy (newTags body) \<longrightarrow> tags p' = tags p)
           \<and> (\<forall>k. k \<noteq> postId \<longrightarrow> psts' k = psts k)"
proof -
  from updatePost_posts[OF assms] show ?thesis
  proof
    assume "psts' = psts"
    with assms(2) show ?thesis by simp
  next
    assume "psts' = psts(postId \<mapsto> assign body mg p)"
    then show ?thesis
      using assign_frame[of body mg p] assign_falsy[of body mg p] by simp
  qed
qed

text \<open>A title of white space only, the no-break space included, is refused with 400.\<close>

lemma blank_title_refused:
  "fst (updatePost sampleMongoose noFaults [''64b7f0c2a1d3e4f5a6b7c8d9'' \<mapsto> samplePost]
          [''u1'' \<mapsto> sampleUser ''user''] \<lparr>userId = ''u1''\<rparr> ''64b7f0c2a1d3e4f5a6b7c8d9''
          \<lparr>newTitle = JStr [0xA0, 0x20, 0x3000], newContent = JUndefined,
           newCategory = JUndefined, newTags = JUndefined\<rparr>)
     = (handleValidationError ''Title must be a non-empty string'' None,
        [''64b7f0c2a1d3e4f5a6b7c8d9'' \<mapsto> samplePost])"
  by (simp add: updatePost_def sampleMongoose_def badText_def trim_def whitespace_def)

theorem updatePost_frame_witness:
  "updatePost sampleMongoose noFaults [''64b7f0c2a1d3e4f5a6b7c8d9'' \<mapsto> samplePost]
       [''u1'' \<mapsto> sampleUser ''user''] \<lparr>userId = ''u1''\<rparr> ''64b7f0c2a1d3e4f5a6b7c8d9''
       \<lparr>newTitle = JStr (units ''  New title ''), newContent = JStr [], newCategory = JUndefined,
        newTags = JArr [JStr (units ''a''), JStr (units ''b'')]\<rparr>
     = ((json_ok ''Post updated'' ''Post updated successfully'',
         [''64b7f0c2a1d3e4f5a6b7c8d9'' \<mapsto> samplePost\<lparr>title := units ''New title'', tags := [units ''a'', units ''b'']\<rparr>]),
        [PostFindById ''64b7f0c2a1d3e4f5a6b7c8d9'', UserFindById ''u1'',
         PostSave ''64b7f0c2a1d3e4f5a6b7c8d9'', PostPopulate ''64b7f0c2a1d3e4f5a6b7c8d9''])
   \<and> (\<exists>p'. [''64b7f0c2a1d3e4f5a6b7c8d9'' \<mapsto> samplePost\<lparr>title := units ''New title'', tags := [units ''a'', units ''b'']\<rparr>]
              ''64b7f0c2a1d3e4f5a6b7c8d9'' = Some p'
          \<and> author p' = Some ''u1'' \<and> createdAt p' = 1700000000000 \<and> published p' = True
          \<and> content p' = units ''Old content'' \<and> category p' = Some ''64b7f0c2a1d3e4f5a6b7c8aa'')"
proof -
  let ?body = "\<lparr>newTitle = JStr (units ''  New title ''), newContent = JStr [], newCategory = JUndefined,
        newTags = JArr [JStr (units ''a''), JStr (units ''b'')]\<rparr>"
  have t: "trim (units ''  New title '') = units ''New title''"
    by (simp add: trim_def whitespace_def units_def)
  have run: "updatePost sampleMongoose noFaults [''64b7f0c2a1d3e4f5a6b7c8d9'' \<mapsto> samplePost]
       [''u1'' \<mapsto> sampleUser ''user''] \<lparr>userId = ''u1''\<rparr> ''64b7f0c2a1d3e4f5a6b7c8d9'' ?body
     = ((json_ok ''Post updated'' ''Post updated successfully'',
         [''64b7f0c2a1d3e4f5a6b7c8d9'' \<mapsto> samplePost\<lparr>title := units ''New title'', tags := [units ''a'', units ''b'']\<rparr>]),
        [PostFindById ''64b7f0c2a1d3e4f5a6b7c8d9'', UserFindById ''u1'',
         PostSave ''64b7f0c2a1d3e4f5a6b7c8d9'', PostPopulate ''64b7f0c2a1d3e4f5a6b7c8d9''])"
    by (simp add: updatePost_def sampleMongoose_def noFaults_def badText_def badTags_def
        assign_def t samplePost_def sampleUser_def)
  have here: "[''64b7f0c2a1d3e4f5a6b7c8d9'' \<mapsto> samplePost] ''64b7f0c2a1d3e4f5a6b7c8d9'' = Some samplePost"
    by simp
  from updatePost_frame[OF run here] run show ?thesis
    by (simp add: samplePost_def)
qed

section \<open>Owner or admin\<close>

text \<open>
  What the three handlers do once the resource is found and the read of the caller's
  record has not thrown.
\<close>

lemma deletePost_authz:
  assumes "pid \<noteq> []" and "isValidObjectId mg (JStr (units pid))"
    and "flt (PostFindById pid) = None" and "psts pid = Some p" and "author p = Some owner"
    and "flt (UserFindById (userId c)) = None"
  shows "deletePost mg flt psts usrs c pid =
           (case usrs (userId c) of
              None \<Rightarrow> ((UserNotFound, psts), [PostFindById pid, UserFindById (userId c)])
            | Some u \<Rightarrow>
                if owner = userId c \<or> role u = ''admin'' then
                  (case flt (PostDeleteOne pid) of
                     Some err \<Rightarrow>
                       ((handleDatabaseError err None, psts),
                        [PostFindById pid, UserFindById (userId c), PostDeleteOne pid])
                   | None \<Rightarrow>
                       ((json_ok ''Post deleted'' ''Post deleted successfully'', psts(pid := None)),
                        [PostFindById pid, UserFindById (userId c), PostDeleteOne pid]))
                else ((NotAuthorized ''delete this post'', psts),
                      [PostFindById pid, UserFindById (userId c)]))"
  using assms
  by (auto simp: deletePost_def UserNotFound_def NotAuthorized_def split: option.splits)

lemma deleteComment_authz:
  assumes "cid \<noteq> []" and "isValidObjectId mg (JStr (units cid))"
    and "flt (CommentFindById cid) = None" and "cmts cid = Some cm"
    and "commentAuthor cm = Some owner" and "flt (UserFindById (userId c)) = None"
  shows "deleteComment mg flt cmts usrs c cid =
           (case usrs (userId c) of
              None \<Rightarrow> ((UserNotFound, cmts), [CommentFindById cid, UserFindById (userId c)])
            | Some u \<Rightarrow>
                if owner = userId c \<or> role u = ''admin'' then
                  (case flt (CommentDeleteOne cid) of
                     Some err \<Rightarrow>
                       ((handleDatabaseError err None, cmts),
                        [CommentFindById cid, UserFindById (userId c), CommentDeleteOne cid])
                   | None \<Rightarrow>
                       ((json_ok ''Comment deleted'' ''Comment deleted successfully'',
                         cmts(cid := None)),
                        [CommentFindById cid, UserFindById (userId c), CommentDeleteOne cid]))
                else ((NotAuthorized ''delete this comment'', cmts),
                      [CommentFindById cid, UserFindById (userId c)]))"
  using assms
  by (auto simp: deleteComment_def UserNotFound_def NotAuthorized_def split: option.splits)

lemma updatePost_authz:
  assumes "pid \<noteq> []" and "isValidObjectId mg (JStr (units pid))" and "validUpdate mg body"
    and "flt (PostFindById pid) = None" and "psts pid = Some p" and "author p = Some owner"
    and "flt (UserFindById (userId c)) = None"
  shows "updatePost mg flt psts usrs c pid body =
           (case usrs (userId c) of
              None \<Rightarrow> ((UserNotFound, psts), [PostFindById pid, UserFindById (userId c)])
            | Some u \<Rightarrow>
                if owner = userId c \<or> role u = ''admin'' then
                  (case flt (PostSave pid) of
                     Some err \<Rightarrow>
                       ((handleDatabaseError err None, psts),
                        [PostFindById pid, UserFindById (userId c), PostSave pid])
                   | None \<Rightarrow>
                       (case flt (PostPopulate pid) of
                          Some err \<Rightarrow>
                            ((handleDatabaseError err None, psts(pid \<mapsto> assign body mg p)),
                             [PostFindById pid, UserFindById (userId c), PostSave pid,
                              PostPopulate pid])
                        | None \<Rightarrow>
                            ((json_ok ''Post updated'' ''Post updated successfully'',
                              psts(pid \<mapsto> assign body mg p)),
                             [PostFindById pid, UserFindById (userId c), PostSave pid,
                              PostPopulate pid])))
                else ((NotAuthorized ''update this post'', psts),
                      [PostFindById pid, UserFindById (userId c)]))"
  using assms
  by (auto simp: updatePost_def validUpdate_def UserNotFound_def NotAuthorized_def
      split: option.splits)

lemma deletePost_reads_user:
  assumes "pid \<noteq> []" and "isValidObjectId mg (JStr (units pid))"
    and "flt (PostFindById pid) = None" and "psts pid = Some p"
  shows "UserFindById (userId c) \<in> set (snd (deletePost mg flt psts usrs c pid))"
  using assms by (auto simp: deletePost_def split: option.splits)

lemma deleteComment_reads_user:
  assumes "cid \<noteq> []" and "isValidObjectId mg (JStr (units cid))"
    and "flt (CommentFindById cid) = None" and "cmts cid = Some cm"
  shows "UserFindById (userId c) \<in> set (snd (deleteComment mg flt cmts usrs c cid))"
  using assms by (auto simp: deleteComment_def split: option.splits)

text \<open>
  C3, as the code has it. Once the resource is found, each of \<open>deletePost\<close>, \<open>updatePost\<close>
  and \<open>deleteComment\<close> goes on to its write exactly when the caller's record is found in
  the user collection (read by \<open>findById\<close> in this request; the payload of the token
  carries no role) and the caller is the owner or the record's role is \<open>admin\<close>. With a
  record and neither, the answer is \<open>NotAuthorized\<close> (401); without a record it is 404
  "User not found", for the owner as for anyone.
\<close>

theorem owner_or_admin_when_record_found:
  assumes "pid \<noteq> []" and "isValidObjectId mg (JStr (units pid))"
    and "cid \<noteq> []" and "isValidObjectId mg (JStr (units cid))" and "validUpdate mg body"
    and "flt (PostFindById pid) = None" and "flt (CommentFindById cid) = None"
    and "flt (UserFindById (userId c)) = None"
    and "psts pid = Some p" and "author p = Some owner"
    and "cmts cid = Some cm" and "commentAuthor cm = Some owner"
  shows "(PostDeleteOne pid \<in> set (snd (deletePost mg flt psts usrs c pid)))
           = (\<exists>u. usrs (userId c) = Some u \<and> (owner = userId c \<or> role u = ''admin''))
         \<and> (PostSave pid \<in> set (snd (updatePost mg flt psts usrs c pid body)))
           = (\<exists>u. usrs (userId c) = Some u \<and> (owner = userId c \<or> role u = ''admin''))
         \<and> (CommentDeleteOne cid \<in> set (snd (deleteComment mg flt cmts usrs c cid)))
           = (\<exists>u. usrs (userId c) = Some u \<and> (owner = userId c \<or> role u = ''admin''))
         \<and> ((\<exists>u. usrs (userId c) = Some u \<and> owner \<noteq> userId c \<and> role u \<noteq> ''admin'') \<longrightarrow>
              fst (deletePost mg flt psts usrs c pid) = (NotAuthorized ''delete this post'', psts)
              \<and> fst (updatePost mg flt psts usrs c pid body)
                  = (NotAuthorized ''update this post'', psts)
              \<and> fst (deleteComment mg flt cmts usrs c cid)
                  = (NotAuthorized ''delete this comment'', cmts))
         \<and> (usrs (userId c) = None \<longrightarrow>
              fst (deletePost mg flt psts usrs c pid) = (UserNotFound, psts)
              \<and> fst (updatePost mg flt psts usrs c pid body) = (UserNotFound, psts)
              \<and> fst (deleteComment mg flt cmts usrs c cid) = (UserNotFound, cmts))"
proof -
  note dp = deletePost_authz[where usrs = usrs and flt = flt and psts = psts, OF assms(1,2,6,9,10,8)]
  note up = updatePost_authz[where usrs = usrs and flt = flt and psts = psts, OF assms(1,2,5,6,9,10,8)]
  note dc = deleteComment_authz[where usrs = usrs and flt = flt and cmts = cmts, OF assms(3,4,7,11,12,8)]
  show ?thesis
  proof (cases "usrs (userId c)")
    case None
    then show ?thesis by (simp add: dp up dc)
  next
    case (Some u)
    then show ?thesis by (auto simp: dp up dc split: option.splits)
  qed
qed

theorem owner_or_admin_when_record_found_witness:
  "PostDeleteOne ''64b7f0c2a1d3e4f5a6b7c8d9''
     \<in> set (snd (deletePost sampleMongoose noFaults [''64b7f0c2a1d3e4f5a6b7c8d9'' \<mapsto> samplePost]
                    [''u2'' \<mapsto> sampleUser ''admin''] \<lparr>userId = ''u2''\<rparr>
                    ''64b7f0c2a1d3e4f5a6b7c8d9''))
   \<and> fst (deleteComment sampleMongoose noFaults [''64b7f0c2a1d3e4f5a6b7c8e0'' \<mapsto> sampleComment]
            [''u3'' \<mapsto> sampleUser ''user''] \<lparr>userId = ''u3''\<rparr> ''64b7f0c2a1d3e4f5a6b7c8e0'')
       = (NotAuthorized ''delete this comment'', [''64b7f0c2a1d3e4f5a6b7c8e0'' \<mapsto> sampleComment])"
proof -
  let ?body = "\<lparr>newTitle = JUndefined, newContent = JUndefined, newCategory = JUndefined,
                newTags = JUndefined\<rparr>"
  have v: "validUpdate sampleMongoose ?body"
    by (simp add: validUpdate_def badText_def badTags_def)
  have i: "isValidObjectId sampleMongoose (JStr (units ''64b7f0c2a1d3e4f5a6b7c8d9''))"
    "isValidObjectId sampleMongoose (JStr (units ''64b7f0c2a1d3e4f5a6b7c8e0''))"
    by (simp_all add: sampleMongoose_def)
  have a: "author samplePost = Some ''u1''" "commentAuthor sampleComment = Some ''u1''"
    by (simp_all add: samplePost_def sampleComment_def)
  have f: "noFaults (PostFindById ''64b7f0c2a1d3e4f5a6b7c8d9'') = None"
    "noFaults (CommentFindById ''64b7f0c2a1d3e4f5a6b7c8e0'') = None"
    "noFaults (UserFindById x) = None" for x
    by (simp_all add: noFaults_def)
  have admin: "PostDeleteOne ''64b7f0c2a1d3e4f5a6b7c8d9''
     \<in> set (snd (deletePost sampleMongoose noFaults [''64b7f0c2a1d3e4f5a6b7c8d9'' \<mapsto> samplePost]
                    [''u2'' \<mapsto> sampleUser ''admin''] \<lparr>userId = ''u2''\<rparr>
                    ''64b7f0c2a1d3e4f5a6b7c8d9''))"
    using owner_or_admin_when_record_found[where mg = sampleMongoose and flt = noFaults
        and pid = "''64b7f0c2a1d3e4f5a6b7c8d9''" and cid = "''64b7f0c2a1d3e4f5a6b7c8e0''"
        and body = ?body and c = "\<lparr>userId = ''u2''\<rparr>" and owner = "''u1''"
        and psts = "[''64b7f0c2a1d3e4f5a6b7c8d9'' \<mapsto> samplePost]" and p = samplePost
        and cmts = "[''64b7f0c2a1d3e4f5a6b7c8e0'' \<mapsto> sampleComment]" and cm = sampleComment
        and usrs = "[''u2'' \<mapsto> sampleUser ''admin'']"]
      v i a f by (simp add: sampleUser_def)
  have other: "fst (deleteComment sampleMongoose noFaults [''64b7f0c2a1d3e4f5a6b7c8e0'' \<mapsto> sampleComment]
            [''u3'' \<mapsto> sampleUser ''user''] \<lparr>userId = ''u3''\<rparr> ''64b7f0c2a1d3e4f5a6b7c8e0'')
       = (NotAuthorized ''delete this comment'', [''64b7f0c2a1d3e4f5a6b7c8e0'' \<mapsto> sampleComment])"
    using owner_or_admin_when_record_found[where mg = sampleMongoose and flt = noFaults
        and pid = "''64b7f0c2a1d3e4f5a6b7c8d9''" and cid = "''64b7f0c2a1d3e4f5a6b7c8e0''"
        and body = ?body and c = "\<lparr>userId = ''u3''\<rparr>" and owner = "''u1''"
        and psts = "[''64b7f0c2a1d3e4f5a6b7c8d9'' \<mapsto> samplePost]" and p = samplePost
        and cmts = "[''64b7f0c2a1d3e4f5a6b7c8e0'' \<mapsto> sampleComment]" and cm = sampleComment
        and usrs = "[''u3'' \<mapsto> sampleUser ''user'']"]
      v i a f by (simp add: sampleUser_def)
  from admin other show ?thesis by simp
qed

theorem owner_without_record_refused:
  "author samplePost = Some ''u1''
   \<and> deletePost sampleMongoose noFaults [''64b7f0c2a1d3e4f5a6b7c8d9'' \<mapsto> samplePost] Map.empty
        \<lparr>userId = ''u1''\<rparr> ''64b7f0c2a1d3e4f5a6b7c8d9''
       = ((UserNotFound, [''64b7f0c2a1d3e4f5a6b7c8d9'' \<mapsto> samplePost]),
          [PostFindById ''64b7f0c2a1d3e4f5a6b7c8d9'', UserFindById ''u1''])
   \<and> status UserNotFound = 404
   \<and> fst (fst (deletePost sampleMongoose noFaults [''64b7f0c2a1d3e4f5a6b7c8d9'' \<mapsto> samplePost]
        Map.empty \<lparr>userId = ''u2''\<rparr> ''64b7f0c2a1d3e4f5a6b7c8d9'')) = UserNotFound
   \<and> UserNotFound \<noteq> NotAuthorized ''delete this post''"
  by (simp add: deletePost_def sampleMongoose_def noFaults_def samplePost_def UserNotFound_def
      NotAuthorized_def handleNotFoundError_def handleAuthError_def handleError_def)

text \<open>
  C4, as the code has it. In \<open>deletePost\<close> and \<open>deleteComment\<close> the caller's record is read
  (\<open>User.findById\<close>) for every caller once the resource is found, the owner included, and
  before the comparison with the owner. An owner whose record is found goes on to the
  delete whatever the role in it; an owner whose record is not found is answered with
  404 "User not found".
\<close>

theorem owner_record_always_read:
  assumes "pid \<noteq> []" and "isValidObjectId mg (JStr (units pid))"
    and "cid \<noteq> []" and "isValidObjectId mg (JStr (units cid))"
    and "flt (PostFindById pid) = None" and "flt (CommentFindById cid) = None"
    and "psts pid = Some p" and "author p = Some (userId c)"
    and "cmts cid = Some cm" and "commentAuthor cm = Some (userId c)"
  shows "UserFindById (userId c) \<in> set (snd (deletePost mg flt psts usrs c pid))
         \<and> UserFindById (userId c) \<in> set (snd (deleteComment mg flt cmts usrs c cid))
         \<and> (flt (UserFindById (userId c)) = None \<and> usrs (userId c) = None \<longrightarrow>
              fst (deletePost mg flt psts usrs c pid) = (UserNotFound, psts)
              \<and> fst (deleteComment mg flt cmts usrs c cid) = (UserNotFound, cmts))
         \<and> (flt (UserFindById (userId c)) = None \<and> usrs (userId c) \<noteq> None \<longrightarrow>
              PostDeleteOne pid \<in> set (snd (deletePost mg flt psts usrs c pid))
              \<and> CommentDeleteOne cid \<in> set (snd (deleteComment mg flt cmts usrs c cid)))"
proof -
  have reads: "UserFindById (userId c) \<in> set (snd (deletePost mg flt psts usrs c pid))"
    "UserFindById (userId c) \<in> set (snd (deleteComment mg flt cmts usrs c cid))"
    using deletePost_reads_user[where flt = flt and psts = psts, OF assms(1,2,5,7)]
      deleteComment_reads_user[where flt = flt and cmts = cmts, OF assms(3,4,6,9)]
    by simp_all
  have rest: "(usrs (userId c) = None \<longrightarrow>
              fst (deletePost mg flt psts usrs c pid) = (UserNotFound, psts)
              \<and> fst (deleteComment mg flt cmts usrs c cid) = (UserNotFound, cmts))
         \<and> (usrs (userId c) \<noteq> None \<longrightarrow>
              PostDeleteOne pid \<in> set (snd (deletePost mg flt psts usrs c pid))
              \<and> CommentDeleteOne cid \<in> set (snd (deleteComment mg flt cmts usrs c cid)))"
    if ok: "flt (UserFindById (userId c)) = None"
    using deletePost_authz[where usrs = usrs and flt = flt and psts = psts, OF assms(1,2,5,7,8) ok]
      deleteComment_authz[where usrs = usrs and flt = flt and cmts = cmts, OF assms(3,4,6,9,10) ok]
    by (auto split: option.splits)
  from reads rest show ?thesis by blast
qed

theorem owner_record_always_read_witness:
  "snd (deletePost sampleMongoose noFaults [''64b7f0c2a1d3e4f5a6b7c8d9'' \<mapsto> samplePost]
          [''u1'' \<mapsto> sampleUser ''user''] \<lparr>userId = ''u1''\<rparr> ''64b7f0c2a1d3e4f5a6b7c8d9'')
     = [PostFindById ''64b7f0c2a1d3e4f5a6b7c8d9'', UserFindById ''u1'',
        PostDeleteOne ''64b7f0c2a1d3e4f5a6b7c8d9'']
   \<and> UserFindById ''u1''
       \<in> set (snd (deletePost sampleMongoose noFaults [''64b7f0c2a1d3e4f5a6b7c8d9'' \<mapsto> samplePost]
                      [''u1'' \<mapsto> sampleUser ''user''] \<lparr>userId = ''u1''\<rparr>
                      ''64b7f0c2a1d3e4f5a6b7c8d9''))"
proof -
  have i: "isValidObjectId sampleMongoose (JStr (units ''64b7f0c2a1d3e4f5a6b7c8d9''))"
    "isValidObjectId sampleMongoose (JStr (units ''64b7f0c2a1d3e4f5a6b7c8e0''))"
    by (simp_all add: sampleMongoose_def)
  have a: "author samplePost = Some ''u1''" "commentAuthor sampleComment = Some ''u1''"
    by (simp_all add: samplePost_def sampleComment_def)
  have f: "noFaults (PostFindById ''64b7f0c2a1d3e4f5a6b7c8d9'') = None"
    "noFaults (CommentFindById ''64b7f0c2a1d3e4f5a6b7c8e0'') = None"
    by (simp_all add: noFaults_def)
  have run: "snd (deletePost sampleMongoose noFaults [''64b7f0c2a1d3e4f5a6b7c8d9'' \<mapsto> samplePost]
          [''u1'' \<mapsto> sampleUser ''user''] \<lparr>userId = ''u1''\<rparr> ''64b7f0c2a1d3e4f5a6b7c8d9'')
     = [PostFindById ''64b7f0c2a1d3e4f5a6b7c8d9'', UserFindById ''u1'',
        PostDeleteOne ''64b7f0c2a1d3e4f5a6b7c8d9'']"
    by (simp add: deletePost_def sampleMongoose_def noFaults_def samplePost_def sampleUser_def)
  show ?thesis
    using owner_record_always_read[where mg = sampleMongoose and flt = noFaults
        and pid = "''64b7f0c2a1d3e4f5a6b7c8d9''" and cid = "''64b7f0c2a1d3e4f5a6b7c8e0''"
        and c = "\<lparr>userId = ''u1''\<rparr>"
        and psts = "[''64b7f0c2a1d3e4f5a6b7c8d9'' \<mapsto> samplePost]" and p = samplePost
        and cmts = "[''64b7f0c2a1d3e4f5a6b7c8e0'' \<mapsto> sampleComment]" and cm = sampleComment
        and usrs = "[''u1'' \<mapsto> sampleUser ''user'']"]
      i a f run by simp
qed

theorem owner_comment_delete_reads_user:
  "commentAuthor sampleComment = Some ''u1''
   \<and> snd (deleteComment sampleMongoose noFaults [''64b7f0c2a1d3e4f5a6b7c8e0'' \<mapsto> sampleComment]
          [''u1'' \<mapsto> sampleUser ''user''] \<lparr>userId = ''u1''\<rparr> ''64b7f0c2a1d3e4f5a6b7c8e0'')
       = [CommentFindById ''64b7f0c2a1d3e4f5a6b7c8e0'', UserFindById ''u1'',
          CommentDeleteOne ''64b7f0c2a1d3e4f5a6b7c8e0'']
   \<and> deleteComment sampleMongoose noFaults [''64b7f0c2a1d3e4f5a6b7c8e0'' \<mapsto> sampleComment]
        Map.empty \<lparr>userId = ''u1''\<rparr> ''64b7f0c2a1d3e4f5a6b7c8e0''
       = ((UserNotFound, [''64b7f0c2a1d3e4f5a6b7c8e0'' \<mapsto> sampleComment]),
          [CommentFindById ''64b7f0c2a1d3e4f5a6b7c8e0'', UserFindById ''u1''])
   \<and> status UserNotFound = 404"
  by (simp add: deleteComment_def sampleMongoose_def noFaults_def sampleComment_def
      sampleUser_def UserNotFound_def handleNotFoundError_def handleError_def)

end
